theory Spec2Isabelle
  imports Complex_Main "HOL-Library.Stream" "HOL-Library.Sublist"
begin

section \<open>Synthetic marketplace data: user profiles and funnel event logs\<close>

text \<open>
  The development embeds the two generator modules of the repository,
  \<^verbatim>\<open>src/generator/users.py\<close> (class \<^verbatim>\<open>UserGenerator\<close>) and
  \<^verbatim>\<open>src/generator/events.py\<close> (class \<^verbatim>\<open>EventGenerator\<close>).

  Conventions of the embedding.
  \<^item> Every source of values that the Python code reads from outside is a stream held in the
    record \<open>world\<close>: numpy's global pseudo-random generator (the one \<^verbatim>\<open>np.random.seed\<close>
    seeds), the operating system's entropy behind \<^verbatim>\<open>uuid.uuid4\<close> (seeded by nothing in
    the code), Faker's generator (seeded by \<^verbatim>\<open>Faker.seed\<close>) and the wall clock behind
    \<^verbatim>\<open>datetime.now\<close>. A function that draws returns the world with that stream advanced.
  \<^item> An exception is the left injection of a sum; \<open>andthen\<close> stops at the first one.
  \<^item> A \<^verbatim>\<open>datetime\<close> is a number of microseconds and a \<^verbatim>\<open>date\<close> a number of days, both
    counted from the same origin as unbounded integers (the upper limit of Python's calendar
    is not modelled).
  \<^item> Python floats are exact rationals here. The constants of the code are short decimals, and
    results that sit on a threshold are named where they occur.
  \<^item> Text outside ASCII (the search vocabulary) is held as its UTF-8 bytes.
\<close>

subsection \<open>Errors, time, the outside world\<close>

datatype error = ValueError | KeyError string

type_synonym datetime = int
type_synonym date = int

definition timedelta_seconds :: "int \<Rightarrow> int" where
  "timedelta_seconds s = s * 1000000"

definition timedelta_days :: "int \<Rightarrow> int" where
  "timedelta_days d = d * 86400000000"

definition days :: "int \<Rightarrow> int" where
  \<comment> \<open>the \<^verbatim>\<open>.days\<close> attribute of a normalised \<^verbatim>\<open>timedelta\<close>: rounds towards minus infinity\<close>
  "days delta = delta div 86400000000"

definition date_of :: "datetime \<Rightarrow> date" where
  "date_of t = t div 86400000000"

definition to_datetime :: "date \<Rightarrow> datetime" where
  \<comment> \<open>\<^verbatim>\<open>pd.to_datetime\<close> of a calendar date: midnight of that day\<close>
  "to_datetime d = d * 86400000000"

definition replace_hms :: "datetime \<Rightarrow> int \<Rightarrow> int \<Rightarrow> int \<Rightarrow> datetime" where
  \<comment> \<open>\<^verbatim>\<open>t.replace(hour=h, minute=m, second=s)\<close>: the day and the sub-second part stay\<close>
  "replace_hms t h m s =
     date_of t * 86400000000 + (h * 3600 + m * 60 + s) * 1000000 + t mod 1000000"

record world =
  np_random :: "nat stream"
  os_urandom :: "string stream"
  faker :: "string stream"
  clock :: "datetime stream"

type_synonym 'a action = "world \<Rightarrow> error + ('a \<times> world)"

definition result :: "'a \<Rightarrow> 'a action" where
  "result x w = Inr (x, w)"

definition andthen :: "'a action \<Rightarrow> ('a \<Rightarrow> 'b action) \<Rightarrow> 'b action" where
  "andthen m f w = (case m w of Inl e \<Rightarrow> Inl e | Inr (x, w') \<Rightarrow> f x w')"

definition bounded :: "int \<Rightarrow> int \<Rightarrow> nat \<Rightarrow> int" where
  \<comment> \<open>the integer of \<open>[low, high)\<close> that a raw draw stands for\<close>
  "bounded low high r = low + int r mod (high - low)"

definition unit_interval :: "nat \<Rightarrow> rat" where
  \<comment> \<open>the float of \<open>[0, 1)\<close> that a raw draw stands for: 53 random bits over \<open>2 ^ 53\<close>\<close>
  "unit_interval r = of_nat (r mod 2 ^ 53) / 2 ^ 53"

definition randint :: "int \<Rightarrow> int \<Rightarrow> int action" where
  \<comment> \<open>\<^verbatim>\<open>np.random.randint(low, high)\<close>: an integer in \<open>[low, high)\<close>, \<^verbatim>\<open>ValueError\<close> when the
      interval is empty\<close>
  "randint low high w =
     (if low \<ge> high then Inl ValueError
      else Inr (bounded low high (shd (np_random w)),
                w\<lparr>np_random := stl (np_random w)\<rparr>))"

definition random_sample :: "rat action" where
  \<comment> \<open>\<^verbatim>\<open>np.random.random()\<close>: a multiple of \<open>2 ^ -53\<close> in \<open>[0, 1)\<close>\<close>
  "random_sample w =
     Inr (unit_interval (shd (np_random w)), w\<lparr>np_random := stl (np_random w)\<rparr>)"

definition choice :: "'a list \<Rightarrow> 'a action" where
  \<comment> \<open>\<^verbatim>\<open>np.random.choice(a)\<close> without weights: a uniform index into \<open>a\<close>\<close>
  "choice a = andthen (randint 0 (int (length a))) (\<lambda>k. result (a ! nat k))"

fun cumsum :: "rat \<Rightarrow> rat list \<Rightarrow> rat list" where
  "cumsum acc [] = []"
| "cumsum acc (x # xs) = (acc + x) # cumsum (acc + x) xs"

definition searchsorted :: "rat list \<Rightarrow> rat \<Rightarrow> nat" where
  \<comment> \<open>\<^verbatim>\<open>cdf.searchsorted(u, side='right')\<close> on an ascending array: how many entries are \<open>\<le> u\<close>\<close>
  "searchsorted cdf u = length (takeWhile (\<lambda>c. c \<le> u) cdf)"

definition choice_p :: "'a list \<Rightarrow> rat list \<Rightarrow> 'a action" where
  \<comment> \<open>\<^verbatim>\<open>np.random.choice(a, p=p)\<close>: the weights are checked, one uniform sample is drawn and
      looked up in the normalised cumulative sums\<close>
  "choice_p a p =
     (if a = [] \<or> length p \<noteq> length a \<or> (\<exists>x \<in> set p. x < 0) \<or> sum_list p \<noteq> 1
      then (\<lambda>w. Inl ValueError)
      else andthen random_sample (\<lambda>u.
             let cdf = cumsum 0 p in
             result (a ! searchsorted (map (\<lambda>c. c / last cdf) cdf) u)))"

definition uuid4 :: "string action" where
  \<comment> \<open>\<^verbatim>\<open>str(uuid.uuid4())\<close>\<close>
  "uuid4 w = Inr (shd (os_urandom w), w\<lparr>os_urandom := stl (os_urandom w)\<rparr>)"

definition now :: "datetime action" where
  \<comment> \<open>\<^verbatim>\<open>datetime.now()\<close>\<close>
  "now w = Inr (shd (clock w), w\<lparr>clock := stl (clock w)\<rparr>)"

definition fake_city :: "string action" where
  \<comment> \<open>\<^verbatim>\<open>self.fake.city()\<close>\<close>
  "fake_city w = Inr (shd (faker w), w\<lparr>faker := stl (faker w)\<rparr>)"

definition fake_name :: "string action" where
  \<comment> \<open>\<^verbatim>\<open>self.fake.name()\<close>\<close>
  "fake_name w = Inr (shd (faker w), w\<lparr>faker := stl (faker w)\<rparr>)"

subsection \<open>Tables\<close>

text \<open>
  A \<^verbatim>\<open>DataFrame\<close> built from a list of dictionaries has the keys of those dictionaries as
  its columns, so the frame of an empty list has no column at all. \<^verbatim>\<open>sort_values\<close> raises
  \<^verbatim>\<open>KeyError\<close> for a label that is not a column, and otherwise orders the rows by that
  column (here by a stable sort; the order of rows with equal keys is not used below).
\<close>

record 'r frame =
  columns :: "string list"
  rows :: "'r list"

definition DataFrame :: "('r \<Rightarrow> string list) \<Rightarrow> 'r list \<Rightarrow> 'r frame" where
  \<comment> \<open>the columns are the keys in the order of their first appearance\<close>
  "DataFrame keys rs = \<lparr>columns = rev (remdups (rev (concat (map keys rs)))), rows = rs\<rparr>"

definition sort_values :: "string \<Rightarrow> ('r \<Rightarrow> int) \<Rightarrow> 'r frame \<Rightarrow> 'r frame action" where
  "sort_values by column df w =
     (if by \<in> set (columns df) then Inr (df\<lparr>rows := sort_key column (rows df)\<rparr>, w)
      else Inl (KeyError by))"

subsection \<open>Event records\<close>

record event =
  event_id :: string
  e_user_id :: string
  session_id :: string
  event_type :: string
  event_timestamp :: datetime
  ab_group :: string
  search_query :: "string option"
  item_id :: "string option"
  message_length :: "int option"

definition EVENT_TYPES :: "string list" where
  "EVENT_TYPES = [''page_view'', ''search'', ''item_view'', ''chat_click'', ''chat_send'']"

definition FUNNEL_RATES :: "string \<rightharpoonup> rat" where
  "FUNNEL_RATES = map_of
     [(''page_view_to_search'', 60 / 100),
      (''search_to_item_view'', 75 / 100),
      (''item_view_to_chat_click'', 25 / 100),
      (''chat_click_to_chat_send'', 80 / 100)]"

definition segment_multiplier :: "string \<rightharpoonup> rat" where
  "segment_multiplier = map_of
     [(''high_engagement'', 13 / 10),
      (''medium_engagement'', 1),
      (''low_engagement'', 7 / 10)]"

definition multiplier :: "string \<Rightarrow> rat" where
  \<comment> \<open>\<^verbatim>\<open>segment_multiplier.get(user_segment, 1.0)\<close>\<close>
  "multiplier user_segment =
     (case segment_multiplier user_segment of None \<Rightarrow> 1 | Some m \<Rightarrow> m)"

definition treatment_boost :: "string \<Rightarrow> rat" where
  "treatment_boost ab = (if ab = ''treatment'' then 14 / 10 else 1)"

definition composed_rate :: "string \<Rightarrow> rat list \<Rightarrow> error + rat" where
  \<comment> \<open>\<^verbatim>\<open>FUNNEL_RATES[key] * f1 * ... * fn\<close>, multiplied from the left as Python does\<close>
  "composed_rate key factors =
     (case FUNNEL_RATES key of
        None \<Rightarrow> Inl (KeyError key)
      | Some r \<Rightarrow> Inr (foldl (*) r factors))"

definition stage_rate :: "string \<Rightarrow> rat list \<Rightarrow> rat action" where
  "stage_rate key factors w =
     (case composed_rate key factors of Inl e \<Rightarrow> Inl e | Inr p \<Rightarrow> Inr (p, w))"

definition queries :: "string list" where
  "queries =
    [[CHR 0xEC, CHR 0x95, CHR 0x84, CHR 0xEC, CHR 0x9D, CHR 0xB4, CHR 0xED, CHR 0x8F, CHR 0xB0],
     [CHR 0xEB, CHR 0x85, CHR 0xB8, CHR 0xED, CHR 0x8A, CHR 0xB8, CHR 0xEB, CHR 0xB6, CHR 0x81],
     [CHR 0xEC, CHR 0x9E, CHR 0x90, CHR 0xEC, CHR 0xA0, CHR 0x84, CHR 0xEA, CHR 0xB1, CHR 0xB0],
     [CHR 0xEC, CHR 0xB1, CHR 0x85, CHR 0xEC, CHR 0x83, CHR 0x81],
     [CHR 0xEC, CHR 0x9D, CHR 0x98, CHR 0xEC, CHR 0x9E, CHR 0x90],
     [CHR 0xEB, CHR 0x83, CHR 0x89, CHR 0xEC, CHR 0x9E, CHR 0xA5, CHR 0xEA, CHR 0xB3, CHR 0xA0],
     [CHR 0xEC, CHR 0x84, CHR 0xB8, CHR 0xED, CHR 0x83, CHR 0x81, CHR 0xEA, CHR 0xB8, CHR 0xB0],
     [CHR 0xEC, CHR 0x97, CHR 0x90, CHR 0xEC, CHR 0x96, CHR 0xB4, CHR 0xEC, CHR 0xBB, CHR 0xA8],
     [CHR 0xEC, CHR 0x84, CHR 0xA0, CHR 0xED, CHR 0x92, CHR 0x8D, CHR 0xEA, CHR 0xB8, CHR 0xB0],
     [CHR 0xEC, CHR 0xA0, CHR 0x84, CHR 0xEC, CHR 0x9E, CHR 0x90, CHR 0xEB, CHR 0xA0, CHR 0x88,
      CHR 0xEC, CHR 0x9D, CHR 0xB8, CHR 0xEC, CHR 0xA7, CHR 0x80],
     [CHR 0xEC, CHR 0xB2, CHR 0xAD, CHR 0xEC, CHR 0x86, CHR 0x8C, CHR 0xEA, CHR 0xB8, CHR 0xB0],
     [CHR 0xEC, CHR 0x9A, CHR 0xB4, CHR 0xEB, CHR 0x8F, CHR 0x99, CHR 0xED, CHR 0x99, CHR 0x94],
     [CHR 0xED, CHR 0x8C, CHR 0xA8, CHR 0xEB, CHR 0x94, CHR 0xA9],
     [CHR 0xEA, CHR 0xB0, CHR 0x80, CHR 0xEB, CHR 0xB0, CHR 0xA9],
     [CHR 0xEC, CHR 0x8B, CHR 0x9C, CHR 0xEA, CHR 0xB3, CHR 0x84],
     [CHR 0xEC, CHR 0xB9, CHR 0xB4, CHR 0xEB, CHR 0xA9, CHR 0x94, CHR 0xEB, CHR 0x9D, CHR 0xBC],
     [CHR 0xEA, CHR 0xB2, CHR 0x8C, CHR 0xEC, CHR 0x9E, CHR 0x84, CHR 0xEA, CHR 0xB8, CHR 0xB0],
     [CHR 0xEB, CHR 0xAA, CHR 0xA8, CHR 0xEB, CHR 0x8B, CHR 0x88, CHR 0xED, CHR 0x84, CHR 0xB0],
     [CHR 0xED, CHR 0x82, CHR 0xA4, CHR 0xEB, CHR 0xB3, CHR 0xB4, CHR 0xEB, CHR 0x93, CHR 0x9C],
     [CHR 0xEB, CHR 0xA7, CHR 0x88, CHR 0xEC, CHR 0x9A, CHR 0xB0, CHR 0xEC, CHR 0x8A, CHR 0xA4]]"

definition generate_search_query :: "string action" where
  "generate_search_query = choice queries"

definition create_event ::
  "string \<Rightarrow> string \<Rightarrow> string \<Rightarrow> datetime \<Rightarrow> string \<Rightarrow> (event \<Rightarrow> event) option \<Rightarrow> event action"
where
  \<comment> \<open>\<open>extra_data\<close> is the dictionary merged into the event by \<^verbatim>\<open>event.update\<close>, given as the
      update it performs; \<open>None\<close> is the absent argument\<close>
  "create_event user_id sid etype timestamp ab extra_data =
     andthen uuid4 (\<lambda>eid.
       let ev = \<lparr>event_id = eid, e_user_id = user_id, session_id = sid, event_type = etype,
                 event_timestamp = timestamp, ab_group = ab,
                 search_query = None, item_id = None, message_length = None\<rparr>
       in result (case extra_data of None \<Rightarrow> ev | Some upd \<Rightarrow> upd ev))"

subsection \<open>One session of the funnel\<close>

definition generate_user_session ::
  "string \<Rightarrow> string \<Rightarrow> datetime \<Rightarrow> string \<Rightarrow> event list action"
where
  "generate_user_session user_id user_segment session_start ab =
     andthen uuid4 (\<lambda>sid.
     andthen (create_event user_id sid ''page_view'' session_start ab None) (\<lambda>e1.
     andthen (randint 5 30) (\<lambda>s1.
     let t1 = session_start + timedelta_seconds s1 in
     andthen random_sample (\<lambda>u1.
     andthen (stage_rate ''page_view_to_search'' [multiplier user_segment]) (\<lambda>p1.
     if u1 < p1 then
       andthen generate_search_query (\<lambda>q.
       andthen (create_event user_id sid ''search'' t1 ab
                  (Some (\<lambda>ev. ev\<lparr>search_query := Some q\<rparr>))) (\<lambda>e2.
       andthen (randint 3 15) (\<lambda>s2.
       let t2 = t1 + timedelta_seconds s2 in
       andthen random_sample (\<lambda>u2.
       andthen (stage_rate ''search_to_item_view'' [multiplier user_segment]) (\<lambda>p2.
       if u2 < p2 then
         andthen uuid4 (\<lambda>iid.
         andthen (create_event user_id sid ''item_view'' t2 ab
                    (Some (\<lambda>ev. ev\<lparr>item_id := Some iid\<rparr>))) (\<lambda>e3.
         andthen (randint 10 60) (\<lambda>s3.
         let t3 = t2 + timedelta_seconds s3 in
         andthen (stage_rate ''item_view_to_chat_click''
                    [multiplier user_segment, treatment_boost ab]) (\<lambda>chat_click_rate.
         andthen random_sample (\<lambda>u3.
         if u3 < chat_click_rate then
           andthen (create_event user_id sid ''chat_click'' t3 ab
                      (Some (\<lambda>ev. ev\<lparr>item_id := Some iid\<rparr>))) (\<lambda>e4.
           andthen (randint 2 10) (\<lambda>s4.
           let t4 = t3 + timedelta_seconds s4 in
           andthen random_sample (\<lambda>u4.
           andthen (stage_rate ''chat_click_to_chat_send'' [multiplier user_segment]) (\<lambda>p4.
           if u4 < p4 then
             andthen (randint 10 200) (\<lambda>len.
             andthen (create_event user_id sid ''chat_send'' t4 ab
                        (Some (\<lambda>ev. ev\<lparr>item_id := Some iid, message_length := Some len\<rparr>)))
               (\<lambda>e5. result [e1, e2, e3, e4, e5]))
           else result [e1, e2, e3, e4]))))
         else result [e1, e2, e3])))))
       else result [e1, e2])))))
     else result [e1])))))"


definition event_keys :: "event \<Rightarrow> string list" where
  "event_keys ev =
     [''event_id'', ''user_id'', ''session_id'', ''event_type'', ''event_timestamp'', ''ab_group'']
     @ (if search_query ev = None then [] else [''search_query''])
     @ (if item_id ev = None then [] else [''item_id''])
     @ (if message_length ev = None then [] else [''message_length''])"

subsection \<open>User profiles\<close>

record user =
  user_id :: string
  name :: string
  location :: string
  join_date :: date
  verified_neighborhood :: bool
  created_at :: datetime
  age_group :: string
  device_type :: string
  user_segment :: "string option"

definition user_keys :: "user \<Rightarrow> string list" where
  "user_keys u =
     [''user_id'', ''name'', ''location'', ''join_date'', ''verified_neighborhood'',
      ''created_at'', ''age_group'', ''device_type'']
     @ (if user_segment u = None then [] else [''user_segment''])"

definition new_user :: "datetime \<Rightarrow> datetime \<Rightarrow> user action" where
  \<comment> \<open>the body of the loop of \<^verbatim>\<open>generate_users\<close>\<close>
  "new_user start_date end_date =
     andthen uuid4 (\<lambda>uid.
     let days_between = days (end_date - start_date) in
     andthen (randint 0 (days_between + 1)) (\<lambda>random_days.
     let joined = start_date + timedelta_days random_days in
     andthen random_sample (\<lambda>v.
     andthen fake_city (\<lambda>loc.
     andthen fake_name (\<lambda>nm.
     andthen (choice_p [''18-24'', ''25-34'', ''35-44'', ''45-54'', ''55+'']
                [15 / 100, 35 / 100, 25 / 100, 15 / 100, 10 / 100]) (\<lambda>age.
     andthen (choice_p [''iOS'', ''Android''] [45 / 100, 55 / 100]) (\<lambda>dev.
     result \<lparr>user_id = uid, name = nm, location = loc, join_date = date_of joined,
             verified_neighborhood = (v < 7 / 10), created_at = joined,
             age_group = age, device_type = dev, user_segment = None\<rparr>)))))))"

fun users_loop :: "nat \<Rightarrow> datetime \<Rightarrow> datetime \<Rightarrow> user list action" where
  "users_loop 0 start_date end_date = result []"
| "users_loop (Suc n) start_date end_date =
     andthen (new_user start_date end_date) (\<lambda>u.
     andthen (users_loop n start_date end_date) (\<lambda>us. result (u # us)))"

definition generate_users ::
  "int \<Rightarrow> datetime option \<Rightarrow> datetime option \<Rightarrow> user frame action"
where
  \<comment> \<open>\<open>None\<close> is the default \<^verbatim>\<open>None\<close> of the two date parameters; \<^verbatim>\<open>range(num_users)\<close> is
      empty for a count below one\<close>
  "generate_users num_users start_date end_date =
     andthen (case start_date of
                None \<Rightarrow> andthen now (\<lambda>t. result (t - timedelta_days 90))
              | Some s \<Rightarrow> result s) (\<lambda>start.
     andthen (case end_date of None \<Rightarrow> now | Some e \<Rightarrow> result e) (\<lambda>end.
     andthen (users_loop (nat num_users) start end) (\<lambda>users.
     sort_values ''join_date'' join_date (DataFrame user_keys users))))"

definition age_multiplier :: "string \<rightharpoonup> rat" where
  "age_multiplier = map_of
     [(''18-24'', 12 / 10), (''25-34'', 13 / 10), (''35-44'', 1),
      (''45-54'', 8 / 10), (''55+'', 6 / 10)]"

definition engagement_score :: "user \<Rightarrow> rat" where
  "engagement_score row =
     (let base_engagement = (if verified_neighborhood row then 5 / 10 else 3 / 10)
      in base_engagement *
           (case age_multiplier (age_group row) of None \<Rightarrow> 1 | Some m \<Rightarrow> m))"

definition segment_of :: "user \<Rightarrow> string" where
  "segment_of row =
     (if engagement_score row > 7 / 10 then ''high_engagement''
      else if engagement_score row > 4 / 10 then ''medium_engagement''
      else ''low_engagement'')"

definition generate_user_segments :: "user frame \<Rightarrow> user frame" where
  \<comment> \<open>\<^verbatim>\<open>df['user_segment'] = segments\<close> overwrites the column or appends it\<close>
  "generate_user_segments df =
     \<lparr>columns = (if ''user_segment'' \<in> set (columns df) then columns df
                 else columns df @ [''user_segment'']),
      rows = map (\<lambda>row. row\<lparr>user_segment := Some (segment_of row)\<rparr>) (rows df)\<rparr>"

subsection \<open>A/B groups and the event table\<close>

definition assign_ab_group :: "(string \<Rightarrow> int) \<Rightarrow> string \<Rightarrow> string" where
  \<comment> \<open>\<open>hash\<close> is the interpreter's built-in string hash of the running process; Python's
      \<^verbatim>\<open>%\<close> with a positive modulus is \<open>mod\<close> on \<open>int\<close>\<close>
  "assign_ab_group hash uid =
     (let hash_val = hash uid; mod_val = hash_val mod 100
      in if mod_val < 20 then ''control''
         else if mod_val < 40 then ''treatment''
         else ''none'')"

definition hourly_probs :: "rat list" where
  "hourly_probs =
     [1 / 100, 1 / 100, 1 / 100, 1 / 100, 1 / 100, 1 / 100,
      2 / 100, 3 / 100, 4 / 100, 4 / 100, 4 / 100, 5 / 100,
      5 / 100, 4 / 100, 4 / 100, 4 / 100, 5 / 100, 6 / 100,
      8 / 100, 9 / 100, 10 / 100, 9 / 100, 7 / 100, 3 / 100]"

definition get_hourly_distribution :: "rat list" where
  "get_hourly_distribution = map (\<lambda>p. p / sum_list hourly_probs) hourly_probs"

definition one_session ::
  "string \<Rightarrow> string \<Rightarrow> datetime \<Rightarrow> string \<Rightarrow> int \<Rightarrow> event list action"
where
  \<comment> \<open>the body of the loop over \<^verbatim>\<open>range(num_sessions)\<close>; \<^verbatim>\<open>continue\<close> contributes no event\<close>
  "one_session uid segment joined ab days_range =
     andthen now (\<lambda>t.
     let days_since_join = min days_range (date_of t - date_of joined) in
     if days_since_join \<le> 0 then result []
     else
       andthen (randint 0 (days_since_join + 1)) (\<lambda>random_day.
       let session_date = joined + timedelta_days random_day in
       andthen (choice_p [0..23] get_hourly_distribution) (\<lambda>hour.
       andthen (randint 0 60) (\<lambda>minute.
       andthen (randint 0 60) (\<lambda>second.
       let session_start = replace_hms session_date hour minute second in
       generate_user_session uid segment session_start ab)))))"

fun sessions_loop ::
  "nat \<Rightarrow> string \<Rightarrow> string \<Rightarrow> datetime \<Rightarrow> string \<Rightarrow> int \<Rightarrow> event list action"
where
  "sessions_loop 0 uid segment joined ab days_range = result []"
| "sessions_loop (Suc n) uid segment joined ab days_range =
     andthen (one_session uid segment joined ab days_range) (\<lambda>session_events.
     andthen (sessions_loop n uid segment joined ab days_range) (\<lambda>more.
     result (session_events @ more)))"

definition events_for_user ::
  "(string \<Rightarrow> int) \<Rightarrow> int \<times> int \<Rightarrow> int \<Rightarrow> user \<Rightarrow> event list action"
where
  \<comment> \<open>the body of the loop over \<^verbatim>\<open>users_df.iterrows()\<close>\<close>
  "events_for_user hash events_per_user_range days_range u =
     (let uid = user_id u;
          segment = (case user_segment u of None \<Rightarrow> ''medium_engagement'' | Some s \<Rightarrow> s);
          joined = to_datetime (join_date u);
          ab = assign_ab_group hash uid
      in andthen (randint (fst events_per_user_range) (snd events_per_user_range))
           (\<lambda>num_sessions. sessions_loop (nat num_sessions) uid segment joined ab days_range))"

fun all_users_events ::
  "(string \<Rightarrow> int) \<Rightarrow> int \<times> int \<Rightarrow> int \<Rightarrow> user list \<Rightarrow> event list action"
where
  "all_users_events hash r d [] = result []"
| "all_users_events hash r d (u # us) =
     andthen (events_for_user hash r d u) (\<lambda>evs.
     andthen (all_users_events hash r d us) (\<lambda>more. result (evs @ more)))"

definition generate_events_for_users ::
  "(string \<Rightarrow> int) \<Rightarrow> user frame \<Rightarrow> (int \<times> int) option \<Rightarrow> int option \<Rightarrow> event frame action"
where
  \<comment> \<open>\<open>None\<close> for a parameter the caller leaves out: \<^verbatim>\<open>events_per_user_range=(1, 5)\<close>,
      \<^verbatim>\<open>days_range=30\<close>\<close>
  "generate_events_for_users hash users_df events_per_user_range days_range =
     (let r = (case events_per_user_range of None \<Rightarrow> (1, 5) | Some x \<Rightarrow> x);
          d = (case days_range of None \<Rightarrow> 30 | Some x \<Rightarrow> x)
      in andthen (all_users_events hash r d (rows users_df)) (\<lambda>all_events.
         let events_df = DataFrame event_keys all_events in
         if length (rows events_df) > 0
         then sort_values ''event_timestamp'' event_timestamp events_df
         else result events_df))"

subsection \<open>Seeding\<close>

text \<open>
  The constructors seed numpy's generator (and, for users, Faker's) from the seed. The
  generators themselves belong to the libraries; \<open>mt\<close> and \<open>fk\<close> stand for the stream each
  one produces from a seed. Nothing seeds \<^verbatim>\<open>uuid.uuid4\<close> or the clock.
\<close>

definition UserGenerator_init ::
  "(int \<Rightarrow> nat stream) \<Rightarrow> (int \<Rightarrow> string stream) \<Rightarrow> int \<Rightarrow> world \<Rightarrow> world" where
  "UserGenerator_init mt fk seed w = w\<lparr>np_random := mt seed, faker := fk seed\<rparr>"

definition EventGenerator_init :: "(int \<Rightarrow> nat stream) \<Rightarrow> int \<Rightarrow> world \<Rightarrow> world" where
  "EventGenerator_init mt seed w = w\<lparr>np_random := mt seed\<rparr>"

subsection \<open>The segmentation rule in the words of the specification\<close>

definition AGE_GROUPS :: "string list" where
  "AGE_GROUPS = [''18-24'', ''25-34'', ''35-44'', ''45-54'', ''55+'']"

definition segment_spec :: "bool \<Rightarrow> string \<Rightarrow> string" where
  \<comment> \<open>base propensity 0.5 if verified else 0.3, times the multiplier of the age group,
      classified at 0.7 and 0.4\<close>
  "segment_spec verified age =
     (let score = (if verified then 5 / 10 else 3 / 10) *
                  (if age = ''18-24'' then 12 / 10
                   else if age = ''25-34'' then 13 / 10
                   else if age = ''35-44'' then 1
                   else if age = ''45-54'' then 8 / 10
                   else 6 / 10 :: rat)
      in if score > 7 / 10 then ''high_engagement''
         else if score > 4 / 10 then ''medium_engagement''
         else ''low_engagement'')"

subsection \<open>Notions used in the statements\<close>

definition default_segment :: "user \<Rightarrow> user" where
  \<comment> \<open>a row without a segment, given the segment \<open>medium_engagement\<close>\<close>
  "default_segment u =
     (case user_segment u of None \<Rightarrow> u\<lparr>user_segment := Some ''medium_engagement''\<rparr> | Some s \<Rightarrow> u)"





subsection \<open>Sample inputs\<close>

definition world0 :: world where
  \<comment> \<open>every raw draw is 0, so every stage of a session fires; the clock stands at day 100\<close>
  "world0 = \<lparr>np_random = sconst 0, os_urandom = siterate (\<lambda>s. CHR ''a'' # s) ''id'',
             faker = sconst ''Kim'', clock = sconst (timedelta_days 100)\<rparr>"

definition hash0 :: "string \<Rightarrow> int" where
  "hash0 s = int (length s)"

definition user_today :: user where
  "user_today = \<lparr>user_id = ''u1'', name = ''Kim'', location = ''Seoul'', join_date = 100,
                 verified_neighborhood = True, created_at = timedelta_days 100,
                 age_group = ''45-54'', device_type = ''iOS'', user_segment = None\<rparr>"

definition user_old :: user where
  "user_old = \<lparr>user_id = ''u2'', name = ''Lee'', location = ''Busan'', join_date = 90,
               verified_neighborhood = False, created_at = timedelta_days 90,
               age_group = ''25-34'', device_type = ''Android'', user_segment = None\<rparr>"

definition mt0 :: "int \<Rightarrow> nat stream" where
  "mt0 seed = siterate Suc (nat seed)"

definition fk0 :: "int \<Rightarrow> string stream" where
  "fk0 seed = sconst ''Kim''"


definition sample_uid :: string where
  "sample_uid = ''3f2b8c1e-5d4a-4e6f-9a7b-0c1d2e3f4a5b''"

text \<open>
  The built-in hash of \<open>sample_uid\<close> in two CPython 3.11 processes, started with
  \<^verbatim>\<open>PYTHONHASHSEED=1\<close> and \<^verbatim>\<open>PYTHONHASHSEED=2\<close> (a process started without the variable picks
  its salt at random). No other string is looked up below.
\<close>

definition hash_seed_1 :: "string \<Rightarrow> int" where
  "hash_seed_1 s = (if s = sample_uid then - 2181010484180357614 else 0)"

definition hash_seed_2 :: "string \<Rightarrow> int" where
  "hash_seed_2 s = (if s = sample_uid then 2053300106359430934 else 0)"

section \<open>Lemmas on the primitives\<close>

lemma randint_Inr:
  "low < high \<Longrightarrow>
   randint low high w =
     Inr (bounded low high (shd (np_random w)), w\<lparr>np_random := stl (np_random w)\<rparr>)"
  by (simp add: randint_def)

lemma bounded_range: "low < high \<Longrightarrow> low \<le> bounded low high r \<and> bounded low high r < high"
proof -
  assume "low < high"
  then have "0 \<le> int r mod (high - low)" "int r mod (high - low) < high - low"
    by simp_all
  then show ?thesis
    unfolding bounded_def by linarith
qed

lemma timedelta_seconds_pos:
  "0 < low \<Longrightarrow> low < high \<Longrightarrow> 0 < timedelta_seconds (bounded low high r)"
  using bounded_range [of low high r] by (simp add: timedelta_seconds_def)

lemma stage_rate_search:
  "stage_rate ''page_view_to_search'' fs w = Inr (foldl (*) (3 / 5) fs, w)"
  by (simp add: stage_rate_def composed_rate_def FUNNEL_RATES_def)

lemma stage_rate_item_view:
  "stage_rate ''search_to_item_view'' fs w = Inr (foldl (*) (3 / 4) fs, w)"
  by (simp add: stage_rate_def composed_rate_def FUNNEL_RATES_def)

lemma stage_rate_chat_click:
  "stage_rate ''item_view_to_chat_click'' fs w = Inr (foldl (*) (1 / 4) fs, w)"
  by (simp add: stage_rate_def composed_rate_def FUNNEL_RATES_def)

lemma stage_rate_chat_send:
  "stage_rate ''chat_click_to_chat_send'' fs w = Inr (foldl (*) (4 / 5) fs, w)"
  by (simp add: stage_rate_def composed_rate_def FUNNEL_RATES_def)

lemma length_queries: "length queries = 20"
  by (simp add: queries_def)

lemma generate_search_query_Inr:
  "generate_search_query w =
     Inr (queries ! nat (bounded 0 20 (shd (np_random w))),
          w\<lparr>np_random := stl (np_random w)\<rparr>)"
  by (simp add: generate_search_query_def choice_def andthen_def result_def randint_Inr
      length_queries)

lemma create_event_Inr:
  "create_event uid sid etype timestamp ab extra_data w =
     Inr ((case extra_data of None \<Rightarrow> (\<lambda>e. e) | Some upd \<Rightarrow> upd)
            \<lparr>event_id = shd (os_urandom w), e_user_id = uid, session_id = sid,
             event_type = etype, event_timestamp = timestamp, ab_group = ab,
             search_query = None, item_id = None, message_length = None\<rparr>,
          w\<lparr>os_urandom := stl (os_urandom w)\<rparr>)"
  by (simp add: create_event_def andthen_def uuid4_def result_def split: option.splits)

lemmas session_simps =
  generate_user_session_def andthen_def result_def uuid4_def random_sample_def
  randint_Inr stage_rate_search stage_rate_item_view stage_rate_chat_click stage_rate_chat_send
  generate_search_query_Inr create_event_Inr

lemma rows_DataFrame [simp]: "rows (DataFrame keys rs) = rs"
  by (simp add: DataFrame_def)

lemma columns_DataFrame: "set (columns (DataFrame keys rs)) = (\<Union>r \<in> set rs. set (keys r))"
  by (simp add: DataFrame_def)

lemma frame_rows_update: "df\<lparr>rows := x\<rparr> = \<lparr>columns = columns df, rows = x\<rparr>"
  by simp

lemma bounded_onto: "low \<le> k \<Longrightarrow> k < high \<Longrightarrow> bounded low high (nat (k - low)) = k"
  by (simp add: bounded_def)

lemma unit_interval_less_1: "unit_interval r < 1"
proof -
  have "r mod 2 ^ 53 < 2 ^ 53"
    by simp
  then have "(of_nat (r mod 2 ^ 53) :: rat) < of_nat (2 ^ 53)"
    unfolding of_nat_less_iff .
  then show ?thesis
    by (simp add: unit_interval_def)
qed

lemma choice_p_Inr:
  "a \<noteq> [] \<Longrightarrow> length p = length a \<Longrightarrow> \<forall>x \<in> set p. 0 \<le> x \<Longrightarrow> sum_list p = 1 \<Longrightarrow>
   choice_p a p w =
     Inr (a ! searchsorted (map (\<lambda>c. c / last (cumsum 0 p)) (cumsum 0 p))
                (unit_interval (shd (np_random w))),
          w\<lparr>np_random := stl (np_random w)\<rparr>)"
  by (auto simp add: choice_p_def andthen_def random_sample_def result_def Let_def not_less)

lemma multiplier_cases:
  "multiplier s = (if s = ''high_engagement'' then 13 / 10
                   else if s = ''low_engagement'' then 7 / 10 else 1)"
  by (simp add: multiplier_def segment_multiplier_def)

section \<open>The funnel order of a session\<close>

text \<open>
  C1. Whatever the random draws, a session returns (it raises nothing), the event types of
  the returned list are a non-empty initial segment of the stage list
  \<open>page_view, search, item_view, chat_click, chat_send\<close>, and the timestamps increase
  strictly along the list.
\<close>

theorem session_is_funnel_prefix:
  "\<exists>evs w'. generate_user_session uid segment session_start ab w = Inr (evs, w')
     \<and> evs \<noteq> []
     \<and> prefix (map event_type evs) EVENT_TYPES
     \<and> sorted_wrt (<) (map event_timestamp evs)"
  by (simp add: session_simps EVENT_TYPES_def Let_def timedelta_seconds_pos add_pos_pos)

text \<open>
  C8. In every session a \<open>chat_send\<close> event comes with a \<open>chat_click\<close> event, and a
  \<open>chat_click\<close> or \<open>chat_send\<close> event comes with an \<open>item_view\<close> event that carries an item
  identifier, the same one as theirs.
\<close>

theorem chat_send_needs_chat_click:
  "\<exists>evs w'. generate_user_session uid segment session_start ab w = Inr (evs, w')
     \<and> ((\<exists>e \<in> set evs. event_type e = ''chat_send'') \<longrightarrow>
          (\<exists>e \<in> set evs. event_type e = ''chat_click''))
     \<and> (\<forall>c \<in> set evs. event_type c = ''chat_click'' \<or> event_type c = ''chat_send'' \<longrightarrow>
          (\<exists>v \<in> set evs. event_type v = ''item_view'' \<and> item_id v \<noteq> None)
          \<and> (\<forall>v \<in> set evs. event_type v = ''item_view'' \<longrightarrow> item_id c = item_id v))"
  by (simp add: session_simps Let_def)

theorem chat_send_needs_chat_click_witness:
  "\<exists>evs w'. generate_user_session ''u1'' ''high_engagement'' 0 ''treatment'' world0 = Inr (evs, w')
     \<and> (\<exists>e \<in> set evs. event_type e = ''chat_send'')
     \<and> (\<exists>e \<in> set evs. event_type e = ''chat_click'')
     \<and> (\<exists>c \<in> set evs. event_type c = ''chat_send''
          \<and> (\<exists>v \<in> set evs. event_type v = ''item_view'' \<and> item_id v = Some ''aaaid''
                \<and> item_id c = item_id v))"
  using chat_send_needs_chat_click [of "''u1''" "''high_engagement''" 0 "''treatment''" world0]
  by (simp add: session_simps Let_def world0_def unit_interval_def multiplier_cases
      treatment_boost_def)

section \<open>Stage probabilities\<close>

text \<open>
  C3 (as the code has it). The probability a stage is sampled against is the baseline rate
  times the segment multiplier (times the treatment boost for \<open>chat_click\<close>); the code applies
  no clamp. For every segment and group the rates of \<open>search\<close>, \<open>item_view\<close> and \<open>chat_click\<close>
  lie in \<open>[0, 1]\<close>. The rate of \<open>chat_send\<close> lies in \<open>[0, 1.04]\<close>, and it is at most 1 exactly
  when the segment is not \<open>high_engagement\<close>.
\<close>

theorem composed_rates_bounds:
  "(\<exists>p. composed_rate ''page_view_to_search'' [multiplier seg] = Inr p \<and> 0 \<le> p \<and> p \<le> 1)
 \<and> (\<exists>p. composed_rate ''search_to_item_view'' [multiplier seg] = Inr p \<and> 0 \<le> p \<and> p \<le> 1)
 \<and> (\<exists>p. composed_rate ''item_view_to_chat_click'' [multiplier seg, treatment_boost ab] = Inr p
        \<and> 0 \<le> p \<and> p \<le> 1)
 \<and> (\<exists>p. composed_rate ''chat_click_to_chat_send'' [multiplier seg] = Inr p \<and> 0 \<le> p
        \<and> p \<le> 26 / 25 \<and> (p \<le> 1 \<longleftrightarrow> seg \<noteq> ''high_engagement''))"
proof -
  let ?m = "multiplier seg" and ?b = "treatment_boost ab"
  have search: "composed_rate ''page_view_to_search'' [?m] = Inr (3 / 5 * ?m)"
    and view: "composed_rate ''search_to_item_view'' [?m] = Inr (3 / 4 * ?m)"
    and click: "composed_rate ''item_view_to_chat_click'' [?m, ?b] = Inr (1 / 4 * ?m * ?b)"
    and send: "composed_rate ''chat_click_to_chat_send'' [?m] = Inr (4 / 5 * ?m)"
    by (simp_all add: composed_rate_def FUNNEL_RATES_def)
  have "0 \<le> 3 / 5 * ?m \<and> 3 / 5 * ?m \<le> 1"
    and "0 \<le> 3 / 4 * ?m \<and> 3 / 4 * ?m \<le> 1"
    and "0 \<le> 1 / 4 * ?m * ?b \<and> 1 / 4 * ?m * ?b \<le> 1"
    and "0 \<le> 4 / 5 * ?m \<and> 4 / 5 * ?m \<le> 26 / 25
         \<and> (4 / 5 * ?m \<le> 1 \<longleftrightarrow> seg \<noteq> ''high_engagement'')"
    by (simp_all add: multiplier_cases treatment_boost_def)
  then show ?thesis
    unfolding search view click send by blast
qed

text \<open>
  The claim as written fails for a \<open>high_engagement\<close> user at the last stage:
  \<open>0.80 * 1.3 = 1.04\<close>, which is the value the sample is compared with.
\<close>

theorem chat_send_rate_counterexample:
  "composed_rate ''chat_click_to_chat_send'' [multiplier ''high_engagement''] = Inr (26 / 25)
   \<and> \<not> (26 / 25 \<le> (1::rat))"
  by (simp add: composed_rate_def FUNNEL_RATES_def multiplier_cases)

text \<open>
  Nothing caps that value: a sample of \<open>[0, 1)\<close> is always below it, so for a
  \<open>high_engagement\<close> user every \<open>chat_click\<close> is followed by a \<open>chat_send\<close>.
\<close>

lemma high_engagement_always_sends:
  "\<exists>evs w'. generate_user_session uid ''high_engagement'' t ab w = Inr (evs, w')
     \<and> (''chat_click'' \<in> event_type ` set evs \<longrightarrow> ''chat_send'' \<in> event_type ` set evs)"
proof -
  have "unit_interval r < 26 / 25" for r
    using unit_interval_less_1 [of r] by simp
  then show ?thesis
    by (simp add: session_simps Let_def multiplier_cases)
qed

section \<open>A/B groups\<close>

text \<open>
  Given the hash function of the running process, the group is decided by the hash reduced
  modulo 100, which lies in \<open>[0, 100)\<close>: \<open>control\<close> exactly on \<open>[0, 20)\<close>, \<open>treatment\<close> exactly
  on \<open>[20, 40)\<close> and \<open>none\<close> exactly on \<open>[40, 100)\<close>.
\<close>

lemma assign_ab_group_by_bucket:
  "(assign_ab_group hash uid = ''control'' \<longleftrightarrow> hash uid mod 100 \<in> {0..<20})
 \<and> (assign_ab_group hash uid = ''treatment'' \<longleftrightarrow> hash uid mod 100 \<in> {20..<40})
 \<and> (assign_ab_group hash uid = ''none'' \<longleftrightarrow> hash uid mod 100 \<in> {40..<100})
 \<and> hash uid mod 100 \<in> {0..<100}"
  by (simp add: assign_ab_group_def Let_def)

text \<open>
  C4 (where the code departs from it). The hash is Python's built-in \<^verbatim>\<open>hash\<close>, which for
  strings is salted per process, so the group is not a function of the identifier alone: one
  identifier falls into \<open>none\<close> in one process and into \<open>treatment\<close> in another.
\<close>

theorem ab_group_differs_between_processes:
  "hash_seed_1 sample_uid mod 100 = 86
 \<and> hash_seed_2 sample_uid mod 100 = 34
 \<and> assign_ab_group hash_seed_1 sample_uid = ''none''
 \<and> assign_ab_group hash_seed_2 sample_uid = ''treatment''"
  by (simp add: assign_ab_group_def Let_def hash_seed_1_def hash_seed_2_def)

section \<open>Segments\<close>

lemma segment_of_spec:
  "age_group row \<in> set AGE_GROUPS \<Longrightarrow>
   segment_of row = segment_spec (verified_neighborhood row) (age_group row)"
  by (auto simp add: AGE_GROUPS_def segment_of_def engagement_score_def age_multiplier_def
      segment_spec_def)

lemma segment_of_update [simp]:
  "segment_of (row\<lparr>user_segment := s\<rparr>) = segment_of row"
  by (simp add: segment_of_def engagement_score_def)

text \<open>
  The rule never yields \<open>high_engagement\<close>: the largest score is \<open>0.5 * 1.3 = 0.65\<close>. The one
  score that sits on a threshold is \<open>0.5 * 0.8 = 0.4\<close>; halving is exact in binary floating
  point, so the float product is the float \<open>0.4\<close> and the strict comparison fails there as
  it does here.
\<close>

lemma segment_table:
  "segment_spec True ''18-24'' = ''medium_engagement''"
  "segment_spec True ''25-34'' = ''medium_engagement''"
  "segment_spec True ''35-44'' = ''medium_engagement''"
  "segment_spec True ''45-54'' = ''low_engagement''"
  "segment_spec True ''55+'' = ''low_engagement''"
  "segment_spec False age = ''low_engagement''"
  by (simp_all add: segment_spec_def)

text \<open>
  C5. The segmentation pass keeps the number of rows, changes no field of a row but the
  segment, sets the segment to a value that depends on the row through the verification
  flag and the age group only (for the five age groups it is the rule of the specification:
  base 0.5 or 0.3, times the age multiplier, classified at 0.7 and 0.4), and running it a
  second time changes nothing.
\<close>

theorem segments_transform:
  "length (rows (generate_user_segments df)) = length (rows df)
 \<and> (\<forall>i < length (rows df).
      rows (generate_user_segments df) ! i =
        (rows df ! i)\<lparr>user_segment := Some (segment_of (rows df ! i))\<rparr>
      \<and> (age_group (rows df ! i) \<in> set AGE_GROUPS \<longrightarrow>
           segment_of (rows df ! i) =
             segment_spec (verified_neighborhood (rows df ! i)) (age_group (rows df ! i))))
 \<and> (verified_neighborhood r1 = verified_neighborhood r2 \<and> age_group r1 = age_group r2 \<longrightarrow>
      segment_of r1 = segment_of r2)
 \<and> generate_user_segments (generate_user_segments df) = generate_user_segments df"
  by (simp add: generate_user_segments_def segment_of_spec comp_def)
    (simp add: segment_of_def engagement_score_def)

theorem segments_transform_witness:
  "length (rows (generate_user_segments (DataFrame user_keys [user_today, user_old]))) = 2
 \<and> age_group user_today \<in> set AGE_GROUPS
 \<and> rows (generate_user_segments (DataFrame user_keys [user_today, user_old])) ! 0 =
     user_today\<lparr>user_segment := Some ''low_engagement''\<rparr>
 \<and> rows (generate_user_segments (DataFrame user_keys [user_today, user_old])) ! 1 =
     user_old\<lparr>user_segment := Some ''low_engagement''\<rparr>
 \<and> segment_spec True ''45-54'' = ''low_engagement''
 \<and> segment_of (user_today\<lparr>name := ''Park'', location := ''Daegu''\<rparr>) = segment_of user_today"
  using segments_transform [of "DataFrame user_keys [user_today, user_old]"
          "user_today\<lparr>name := ''Park'', location := ''Daegu''\<rparr>" user_today]
  by (simp add: DataFrame_def user_today_def user_old_def AGE_GROUPS_def segment_spec_def
      generate_user_segments_def segment_of_def engagement_score_def age_multiplier_def)

section \<open>The user table\<close>

text \<open>
  C6 (where the code departs from it). For a count of zero or below the loop builds no
  record, the frame of the empty list has no \<open>join_date\<close> column, and sorting by it raises
  \<^verbatim>\<open>KeyError\<close>: no empty table is returned.
\<close>

theorem generate_users_empty_raises:
  "generate_users (- int k) start_date end_date w = Inl (KeyError ''join_date'')"
  by (simp add: generate_users_def andthen_def now_def result_def sort_values_def DataFrame_def
      split: option.splits)

text \<open>
  For a positive count and an end date not before the start date the rest of the contract
  holds: the table has exactly that many rows, it is ordered by join date, and every join
  date is the start date plus a whole number of days between 0 and the length of the range
  in days, both ends included. Every such offset is the value of some draw
  (\<open>bounded_onto\<close>). When the dates are left out, the start is the first reading of the
  clock minus 90 days and the end is the second reading.
\<close>

lemma new_user_Inr:
  assumes "0 \<le> days (e - s)"
  shows "\<exists>u w'. new_user s e w = Inr (u, w')
     \<and> join_date u = date_of (created_at u)
     \<and> created_at u = s + timedelta_days (bounded 0 (days (e - s) + 1) (shd (np_random w)))"
  using assms
  by (simp add: new_user_def andthen_def result_def uuid4_def randint_Inr random_sample_def
      fake_city_def fake_name_def choice_p_Inr Let_def)

lemma users_loop_Inr:
  assumes "0 \<le> days (e - s)"
  shows "\<exists>us w'. users_loop n s e w = Inr (us, w') \<and> length us = n
     \<and> (\<forall>u \<in> set us. join_date u = date_of (created_at u)
           \<and> (\<exists>k. 0 \<le> k \<and> k \<le> days (e - s) \<and> created_at u = s + timedelta_days k))"
proof (induction n arbitrary: w)
  case 0
  then show ?case by (simp add: result_def)
next
  case (Suc n)
  obtain u w1 where first: "new_user s e w = Inr (u, w1)"
    and jd: "join_date u = date_of (created_at u)"
    and ca: "created_at u = s + timedelta_days (bounded 0 (days (e - s) + 1) (shd (np_random w)))"
    using new_user_Inr [OF assms, of w] by blast
  have "0 \<le> bounded 0 (days (e - s) + 1) (shd (np_random w))
        \<and> bounded 0 (days (e - s) + 1) (shd (np_random w)) < days (e - s) + 1"
    using assms by (intro bounded_range) simp
  then have inrange: "\<exists>k. 0 \<le> k \<and> k \<le> days (e - s) \<and> created_at u = s + timedelta_days k"
    using ca by (intro exI [of _ "bounded 0 (days (e - s) + 1) (shd (np_random w))"]) simp
  obtain us w2 where rest: "users_loop n s e w1 = Inr (us, w2)" and len: "length us = n"
    and all: "\<forall>u \<in> set us. join_date u = date_of (created_at u)
           \<and> (\<exists>k. 0 \<le> k \<and> k \<le> days (e - s) \<and> created_at u = s + timedelta_days k)"
    using Suc.IH by blast
  show ?case
    using first rest len all jd inrange by (simp add: andthen_def result_def)
qed

lemma join_date_key: "''join_date'' \<in> set (user_keys u)"
  by (simp add: user_keys_def)

lemma generate_users_positive:
  assumes "0 < n" and "0 \<le> days (e - s)"
  shows "\<exists>df w'. generate_users n (Some s) (Some e) w = Inr (df, w')
     \<and> int (length (rows df)) = n
     \<and> sorted (map join_date (rows df))
     \<and> (\<forall>u \<in> set (rows df). join_date u = date_of (created_at u)
           \<and> (\<exists>k. 0 \<le> k \<and> k \<le> days (e - s) \<and> created_at u = s + timedelta_days k))"
proof -
  obtain us w' where loop: "users_loop (nat n) s e w = Inr (us, w')" and len: "length us = nat n"
    and all: "\<forall>u \<in> set us. join_date u = date_of (created_at u)
           \<and> (\<exists>k. 0 \<le> k \<and> k \<le> days (e - s) \<and> created_at u = s + timedelta_days k)"
    using users_loop_Inr [OF assms(2)] by blast
  from len assms(1) have "us \<noteq> []"
    by auto
  then have "''join_date'' \<in> set (columns (DataFrame user_keys us))"
    unfolding columns_DataFrame using join_date_key by (cases us) auto
  then have "generate_users n (Some s) (Some e) w =
      Inr (\<lparr>columns = columns (DataFrame user_keys us), rows = sort_key join_date us\<rparr>, w')"
    using loop
    by (simp add: generate_users_def andthen_def result_def sort_values_def frame_rows_update)
  moreover have "sorted (map join_date (sort_key join_date us))"
    by (rule sorted_sort_key)
  ultimately show ?thesis
    using len all assms(1) by simp
qed

lemma generate_users_default_dates:
  "generate_users n None None w =
     generate_users n (Some (shd (clock w) - timedelta_days 90)) (Some (shd (stl (clock w))))
       (w\<lparr>clock := stl (stl (clock w))\<rparr>)"
  by (simp add: generate_users_def andthen_def result_def now_def)

section \<open>The event table\<close>

lemma date_of_to_datetime [simp]: "date_of (to_datetime d) = d"
  by (simp add: date_of_def to_datetime_def)

lemma sset_sdrop: "sset (sdrop n s) \<subseteq> sset s"
  by (auto simp add: sset_range sdrop_snth)

lemma one_session_skip:
  "min d (date_of (shd (clock w)) - date_of joined) \<le> 0 \<Longrightarrow>
   one_session uid seg joined ab d w = Inr ([], w\<lparr>clock := stl (clock w)\<rparr>)"
  by (simp add: one_session_def andthen_def now_def result_def Let_def)

lemma sessions_loop_skip:
  "\<forall>t \<in> sset (clock w). min d (date_of t - date_of joined) \<le> 0 \<Longrightarrow>
   sessions_loop n uid seg joined ab d w = Inr ([], w\<lparr>clock := sdrop n (clock w)\<rparr>)"
proof (induction n arbitrary: w)
  case 0
  then show ?case by (simp add: result_def)
next
  case (Suc n)
  let ?w1 = "w\<lparr>clock := stl (clock w)\<rparr>"
  have first: "one_session uid seg joined ab d w = Inr ([], ?w1)"
    using Suc.prems by (intro one_session_skip) (simp add: shd_sset)
  have "\<forall>t \<in> sset (clock ?w1). min d (date_of t - date_of joined) \<le> 0"
    using Suc.prems by (auto dest: stl_sset)
  then have "sessions_loop n uid seg joined ab d ?w1 = Inr ([], ?w1\<lparr>clock := sdrop n (clock ?w1)\<rparr>)"
    by (rule Suc.IH)
  with first show ?case
    by (simp add: andthen_def result_def)
qed

lemma events_for_user_skip:
  assumes "fst r < snd r"
    and "\<forall>t \<in> sset (clock w). min d (date_of t - join_date u) \<le> 0"
  shows "\<exists>w'. events_for_user hash r d u w = Inr ([], w') \<and> sset (clock w') \<subseteq> sset (clock w)"
proof -
  let ?w1 = "w\<lparr>np_random := stl (np_random w)\<rparr>"
  have "\<forall>t \<in> sset (clock ?w1). min d (date_of t - date_of (to_datetime (join_date u))) \<le> 0"
    using assms(2) by simp
  note loop = sessions_loop_skip [OF this]
  have "sset (sdrop n (clock w)) \<subseteq> sset (clock w)" for n
    by (rule sset_sdrop)
  then show ?thesis
    using assms(1) by (simp add: events_for_user_def Let_def andthen_def randint_Inr loop)
qed

lemma all_users_events_skip:
  assumes "fst r < snd r"
  shows "\<forall>u \<in> set us. \<forall>t \<in> sset (clock w). min d (date_of t - join_date u) \<le> 0 \<Longrightarrow>
   \<exists>w'. all_users_events hash r d us w = Inr ([], w')"
proof (induction us arbitrary: w)
  case Nil
  then show ?case by (simp add: result_def)
next
  case (Cons u us)
  from Cons.prems obtain w1 where
    first: "events_for_user hash r d u w = Inr ([], w1)" and sub: "sset (clock w1) \<subseteq> sset (clock w)"
    using events_for_user_skip [OF assms, of w d u hash] by auto
  have "\<forall>u \<in> set us. \<forall>t \<in> sset (clock w1). min d (date_of t - join_date u) \<le> 0"
    using Cons.prems sub by auto
  then obtain w2 where "all_users_events hash r d us w1 = Inr ([], w2)"
    using Cons.IH by blast
  with first show ?case
    by (simp add: andthen_def result_def)
qed

text \<open>
  C9 (as the code has it). With an empty user table, or with a non-empty session-count range
  (\<open>low < high\<close>) and every user joined so recently that
  \<open>min(days_range, today - join date) \<le> 0\<close> at every reading of the clock,
  \<^verbatim>\<open>generate_events_for_users\<close> raises nothing and returns the empty event table.
\<close>

theorem degenerate_inputs_give_empty_table:
  assumes "r = (case r_opt of None \<Rightarrow> (1, 5) | Some x \<Rightarrow> x)"
    and "d = (case d_opt of None \<Rightarrow> 30 | Some x \<Rightarrow> x)"
    and "rows users_df = [] \<or>
         (fst r < snd r \<and>
          (\<forall>u \<in> set (rows users_df). \<forall>t \<in> sset (clock w). min d (date_of t - join_date u) \<le> 0))"
  shows "\<exists>w'. generate_events_for_users hash users_df r_opt d_opt w =
                Inr (\<lparr>columns = [], rows = []\<rparr>, w')"
proof -
  have "\<exists>w'. all_users_events hash r d (rows users_df) w = Inr ([], w')"
    using assms(3)
  proof
    assume "rows users_df = []"
    then show ?thesis by (simp add: result_def)
  next
    assume "fst r < snd r \<and>
      (\<forall>u \<in> set (rows users_df). \<forall>t \<in> sset (clock w). min d (date_of t - join_date u) \<le> 0)"
    then show ?thesis
      using all_users_events_skip by blast
  qed
  then show ?thesis
    using assms(1,2)
    by (auto simp add: generate_events_for_users_def andthen_def result_def DataFrame_def)
qed

theorem degenerate_inputs_give_empty_table_witness:
  "(\<exists>w'. generate_events_for_users hash0 \<lparr>columns = [], rows = []\<rparr> None None world0 =
            Inr (\<lparr>columns = [], rows = []\<rparr>, w'))
 \<and> min 30 (date_of (timedelta_days 100) - join_date user_today) \<le> 0
 \<and> (\<exists>w'. generate_events_for_users hash0 (DataFrame user_keys [user_today, user_today])
            (Some (2, 10)) (Some 30) world0 = Inr (\<lparr>columns = [], rows = []\<rparr>, w'))"
  using degenerate_inputs_give_empty_table
          [of "(1, 5)" None 30 None "\<lparr>columns = [], rows = []\<rparr>" world0 hash0]
        degenerate_inputs_give_empty_table
          [of "(2, 10)" "Some (2, 10)" 30 "Some 30" "DataFrame user_keys [user_today, user_today]"
              world0 hash0]
  by (simp add: world0_def user_today_def DataFrame_def timedelta_days_def date_of_def)

text \<open>
  Without the condition on the range the claim fails: the session count is drawn before the
  guard on the join date is reached, and \<^verbatim>\<open>randint(3, 3)\<close> raises \<^verbatim>\<open>ValueError\<close> for a user
  who joined today.
\<close>

theorem empty_range_counterexample:
  "sset (clock world0) = {timedelta_days 100}
 \<and> min 30 (date_of (timedelta_days 100) - join_date user_today) \<le> 0
 \<and> generate_events_for_users hash0 (DataFrame user_keys [user_today]) (Some (3, 3)) (Some 30)
      world0 = Inl ValueError"
  by (simp add: world0_def user_today_def date_of_def timedelta_days_def DataFrame_def
      generate_events_for_users_def events_for_user_def andthen_def randint_def Let_def
      result_def)

section \<open>Weighted choices\<close>




section \<open>Reproducibility\<close>

text \<open>
  C2 (where the code departs from it). A seed fixes numpy's and Faker's streams and nothing
  else. Two runs from one seed, with the same arguments and the same clock, that differ only
  in what \<^verbatim>\<open>uuid.uuid4\<close> returns give different user tables (the user identifiers differ)
  and different event tables (the event identifiers differ).
\<close>

theorem same_seed_different_tables:
  "(let w1 = UserGenerator_init mt0 fk0 42 world0;
        w2 = UserGenerator_init mt0 fk0 42 (world0\<lparr>os_urandom := sconst ''other''\<rparr>)
    in np_random w1 = np_random w2 \<and> faker w1 = faker w2 \<and> clock w1 = clock w2
     \<and> (\<exists>df1 df2 w1' w2'.
          generate_users 1 (Some 0) (Some (timedelta_days 90)) w1 = Inr (df1, w1')
        \<and> generate_users 1 (Some 0) (Some (timedelta_days 90)) w2 = Inr (df2, w2')
        \<and> map user_id (rows df1) = [''id''] \<and> map user_id (rows df2) = [''other'']
        \<and> df1 \<noteq> df2))
 \<and> (let w1 = EventGenerator_init mt0 42 world0;
        w2 = EventGenerator_init mt0 42 (world0\<lparr>os_urandom := sconst ''other''\<rparr>)
    in np_random w1 = np_random w2 \<and> clock w1 = clock w2
     \<and> (\<exists>df1 df2 w1' w2'.
          generate_events_for_users hash0 (DataFrame user_keys [user_old]) (Some (1, 2)) (Some 30)
            w1 = Inr (df1, w1')
        \<and> generate_events_for_users hash0 (DataFrame user_keys [user_old]) (Some (1, 2)) (Some 30)
            w2 = Inr (df2, w2')
        \<and> map event_id (rows df1) \<noteq> map event_id (rows df2)))"
proof -
  have users: "(let w1 = UserGenerator_init mt0 fk0 42 world0;
        w2 = UserGenerator_init mt0 fk0 42 (world0\<lparr>os_urandom := sconst ''other''\<rparr>)
    in np_random w1 = np_random w2 \<and> faker w1 = faker w2 \<and> clock w1 = clock w2
     \<and> (\<exists>df1 df2 w1' w2'.
          generate_users 1 (Some 0) (Some (timedelta_days 90)) w1 = Inr (df1, w1')
        \<and> generate_users 1 (Some 0) (Some (timedelta_days 90)) w2 = Inr (df2, w2')
        \<and> map user_id (rows df1) = [''id''] \<and> map user_id (rows df2) = [''other'']
        \<and> df1 \<noteq> df2))"
    by (simp add: Let_def UserGenerator_init_def mt0_def fk0_def world0_def generate_users_def
        new_user_def andthen_def result_def uuid4_def randint_Inr random_sample_def
        fake_city_def fake_name_def choice_p_def sort_values_def DataFrame_def user_keys_def
        days_def timedelta_days_def)
  have events: "(let w1 = EventGenerator_init mt0 42 world0;
        w2 = EventGenerator_init mt0 42 (world0\<lparr>os_urandom := sconst ''other''\<rparr>)
    in np_random w1 = np_random w2 \<and> clock w1 = clock w2
     \<and> (\<exists>df1 df2 w1' w2'.
          generate_events_for_users hash0 (DataFrame user_keys [user_old]) (Some (1, 2)) (Some 30)
            w1 = Inr (df1, w1')
        \<and> generate_events_for_users hash0 (DataFrame user_keys [user_old]) (Some (1, 2)) (Some 30)
            w2 = Inr (df2, w2')
        \<and> map event_id (rows df1) \<noteq> map event_id (rows df2)))"
    by (simp add: Let_def EventGenerator_init_def mt0_def world0_def
        generate_events_for_users_def events_for_user_def one_session_def now_def date_of_def
        to_datetime_def user_old_def hash0_def assign_ab_group_def replace_hms_def
        session_simps choice_p_def sort_values_def DataFrame_def user_keys_def event_keys_def
        get_hourly_distribution_def hourly_probs_def upto.simps searchsorted_def
        unit_interval_def bounded_def multiplier_cases treatment_boost_def
        timedelta_days_def timedelta_seconds_def)
  from users events show ?thesis ..
qed

section \<open>Segments the simulation does not know\<close>

lemma events_for_user_default:
  "events_for_user hash r d (default_segment u) = events_for_user hash r d u"
  by (simp add: events_for_user_def default_segment_def split: option.splits)

lemma all_users_events_default:
  "all_users_events hash r d (map default_segment us) = all_users_events hash r d us"
  by (induction us) (simp_all add: events_for_user_default)

lemma session_neutral_segment:
  "multiplier seg = 1 \<Longrightarrow>
   generate_user_session uid seg t ab = generate_user_session uid ''medium_engagement'' t ab"
proof -
  assume neutral: "multiplier seg = 1"
  have medium: "multiplier ''medium_engagement'' = 1"
    by (simp add: multiplier_cases)
  show ?thesis
    unfolding generate_user_session_def neutral medium ..
qed

lemma session_returns:
  "\<exists>evs w'. generate_user_session uid seg t ab w = Inr (evs, w')
     \<and> length (filter (\<lambda>e. event_type e = ''page_view'') evs) = 1
     \<and> clock w' = clock w"
  by (simp add: session_simps Let_def)

text \<open>
  C10. A row without a segment gives the same event table as the row with the segment
  \<open>medium_engagement\<close>; a segment outside the three known names has the multiplier 1 and
  gives the session of \<open>medium_engagement\<close>; and a session returns for every segment.
\<close>

theorem unknown_segment_is_neutral:
  "generate_events_for_users hash (users_df\<lparr>rows := map default_segment (rows users_df)\<rparr>)
     r_opt d_opt w = generate_events_for_users hash users_df r_opt d_opt w
 \<and> (seg \<notin> {''high_engagement'', ''medium_engagement'', ''low_engagement''} \<longrightarrow>
      multiplier seg = 1
      \<and> generate_user_session uid seg t ab w =
          generate_user_session uid ''medium_engagement'' t ab w)
 \<and> (\<exists>evs w'. generate_user_session uid seg t ab w = Inr (evs, w'))"
proof -
  have "generate_events_for_users hash (users_df\<lparr>rows := map default_segment (rows users_df)\<rparr>)
     r_opt d_opt w = generate_events_for_users hash users_df r_opt d_opt w"
    by (simp add: generate_events_for_users_def all_users_events_default)
  moreover have "multiplier seg = 1"
    if "seg \<notin> {''high_engagement'', ''medium_engagement'', ''low_engagement''}"
    using that by (simp add: multiplier_cases)
  moreover have "\<exists>evs w'. generate_user_session uid seg t ab w = Inr (evs, w')"
    using session_returns [of uid seg t ab w] by blast
  ultimately show ?thesis
    using session_neutral_segment [of seg uid t ab] by auto
qed

theorem unknown_segment_is_neutral_witness:
  "user_segment user_old = None
 \<and> generate_events_for_users hash0
      \<lparr>columns = [], rows = [user_old\<lparr>user_segment := Some ''medium_engagement''\<rparr>]\<rparr>
      None None world0
    = generate_events_for_users hash0 \<lparr>columns = [], rows = [user_old]\<rparr> None None world0
 \<and> ''vip'' \<notin> {''high_engagement'', ''medium_engagement'', ''low_engagement''}
 \<and> multiplier ''vip'' = 1
 \<and> generate_user_session ''u2'' ''vip'' 0 ''none'' world0 =
     generate_user_session ''u2'' ''medium_engagement'' 0 ''none'' world0"
  using unknown_segment_is_neutral
          [of hash0 "\<lparr>columns = [], rows = [user_old]\<rparr>" None None world0 "''vip''" "''u2''" 0
              "''none''"]
  by (simp add: default_segment_def user_old_def)

section \<open>Sessions per user\<close>















end
